theory Spec2Isabelle
  imports Main
begin

section \<open>HTTP values seen by the dispatcher\<close>

text \<open>
  The status codes of \<^verbatim>\<open>net/http\<close> that \<^verbatim>\<open>rest.go\<close> names.
\<close>

definition StatusBadRequest :: nat where
  "StatusBadRequest = 400"

definition StatusNotFound :: nat where
  "StatusNotFound = 404"

definition StatusInternalServerError :: nat where
  "StatusInternalServerError = 500"

text \<open>
  Of a request the dispatcher reads \<^verbatim>\<open>r.Method\<close>, \<^verbatim>\<open>r.URL.Path\<close> and
  \<^verbatim>\<open>r.Body\<close> (the bytes the body reader yields).
\<close>

record Request =
  Method :: string
  Path :: string
  Body :: string

text \<open>
  The response writer is an interface of \<^verbatim>\<open>net/http\<close>; the dispatcher and the handlers
  only call it. Its state is the sequence of calls it has received, oldest first.
  \<^verbatim>\<open>http.Error(w, msg, code)\<close> calls \<^verbatim>\<open>w.WriteHeader(code)\<close> and prints
  \<^verbatim>\<open>msg\<close> followed by a newline (the header fields it sets are not modelled).
\<close>

datatype wcall = WriteHeader nat | Write string

type_synonym ResponseWriter = "wcall list"

definition http_Error :: "ResponseWriter \<Rightarrow> string \<Rightarrow> nat \<Rightarrow> ResponseWriter" where
  "http_Error w msg code = w @ [WriteHeader code, Write (msg @ [CHR 0x0A])]"

text \<open>
  What \<^verbatim>\<open>net/http\<close> makes of the calls: the first \<^verbatim>\<open>WriteHeader\<close> fixes the status
  of the response, a \<^verbatim>\<open>Write\<close> before any \<^verbatim>\<open>WriteHeader\<close> fixes it to 200, and a
  later \<^verbatim>\<open>WriteHeader\<close> does not change it. \<open>None\<close>: no call has fixed it yet.
\<close>

definition StatusOK :: nat where
  "StatusOK = 200"

fun statusCode :: "ResponseWriter \<Rightarrow> nat option" where
  "statusCode [] = None"
| "statusCode (WriteHeader code # cs) = Some code"
| "statusCode (Write b # cs) = Some StatusOK"

section \<open>What reflect sees of the service\<close>

text \<open>
  A value as \<^verbatim>\<open>reflect\<close> shows it to \<^verbatim>\<open>rest.go\<close>: a struct with its type name and
  its declared fields in order, a pointer (nil is \<open>None\<close>), or a value of any other kind
  (the nil interface included). Of a field: its name, its package path (empty exactly
  when the field is exported), its tag as key/value pairs, whether the value it holds
  is a \<^verbatim>\<open>Service\<close> (the assertion \<^verbatim>\<open>.(Service)\<close> succeeds on it), and whether that
  value implements \<^verbatim>\<open>nodeInterface\<close>.
\<close>

record StructField =
  Name :: string
  PkgPath :: string
  Tag :: "(string \<times> string) list"
  IsService :: bool
  IsNode :: bool

datatype Value =
    StructValue string "StructField list"
  | Pointer "Value option"
  | OtherValue

datatype Kind = Struct | Ptr | OtherKind

fun Kind_of :: "Value \<Rightarrow> Kind" where
  "Kind_of (StructValue t fs) = Struct"
| "Kind_of (Pointer p) = Ptr"
| "Kind_of OtherValue = OtherKind"

text \<open>\<^verbatim>\<open>Elem\<close> of a pointer; of a nil pointer it is the zero \<^verbatim>\<open>Value\<close> (\<open>None\<close>).\<close>

fun Elem :: "Value \<Rightarrow> Value option" where
  "Elem (Pointer p) = p"
| "Elem v = None"

text \<open>
  \<^verbatim>\<open>t.FieldByName(name)\<close> on a struct type: the field and its index
  (\<^verbatim>\<open>Index[0]\<close>), or not ok. Only the fields the struct declares itself are
  searched. \<^verbatim>\<open>reflect\<close> also finds a field promoted from an embedded struct (with the
  index of the embedding field first); the structs of this model embed no struct that
  promotes a field of the name looked up.
\<close>

fun FieldByName :: "StructField list \<Rightarrow> string \<Rightarrow> (nat \<times> StructField) option" where
  "FieldByName [] n = None"
| "FieldByName (f # fs) n =
     (if Name f = n then Some (0, f)
      else map_option (\<lambda>(i, g). (Suc i, g)) (FieldByName fs n))"

text \<open>The panic of \<^verbatim>\<open>Value.Interface\<close> on a field that is not exported.\<close>

definition unexportedField :: string where
  "unexportedField =
     ''reflect.Value.Interface: cannot return value obtained from unexported field or method''"

text \<open>
  Line 163 of \<^verbatim>\<open>rest.go\<close>, \<^verbatim>\<open>s.instance.Field(0).Interface().(Service)\<close>:
  \<^verbatim>\<open>Field(0)\<close> panics on a value that is not a struct and on a struct without fields,
  \<^verbatim>\<open>Interface()\<close> panics when field 0 is not exported, and the assertion panics when
  the value of field 0 is not a \<^verbatim>\<open>Service\<close>. \<open>assertService v\<close> is the panic value,
  \<open>None\<close> when the line completes.
\<close>

definition notService :: string where
  "notService = ''interface conversion: interface is not rest.Service''"

definition assertService :: "Value \<Rightarrow> string option" where
  "assertService v =
     (case v of
        StructValue t fs \<Rightarrow>
          (case fs of
             [] \<Rightarrow> Some ''reflect: Field index out of range''
           | f # rest \<Rightarrow>
               if PkgPath f \<noteq> [] then Some unexportedField
               else if \<not> IsService f then Some notService
               else None)
      | Pointer p \<Rightarrow> Some ''reflect: call of reflect.Value.Field on ptr Value''
      | OtherValue \<Rightarrow> Some ''reflect: call of reflect.Value.Field on zero Value'')"

text \<open>
  \<^verbatim>\<open>s.instance\<close> is a \<^verbatim>\<open>reflect.Value\<close> that refers to the service struct. In its
  place the model has a record: what \<^verbatim>\<open>reflect\<close> sees of the struct, and, in the
  extension of the record, the data of the struct that the handlers read and change.
\<close>

record Instance =
  reflected :: Value

section \<open>Routes and the router\<close>

text \<open>
  Go errors are modelled by their message (\<^verbatim>\<open>err.Error()\<close>), a nil error by
  \<open>None\<close>. A panic carries a value: nil (\<^verbatim>\<open>panic(nil)\<close>), or a value that is not nil,
  modelled by its \<^verbatim>\<open>%v\<close> rendering.

  \<^verbatim>\<open>ctx.marshaller.Unmarshal(r.Body, request.Interface())\<close> fills a fresh value of the
  route's request type: \<open>Unmarshal m body ty\<close> is the error, or the filled value
  (\<^verbatim>\<open>request.Elem()\<close>). A request type is identified by its \<^verbatim>\<open>%s\<close> rendering.
\<close>

datatype panicValue = PanicNil | PanicValue string

record 'v Marshaller =
  Unmarshal :: "string \<Rightarrow> string \<Rightarrow> string + 'v"

record 'v Context =
  marshaller :: "'v Marshaller"

text \<open>
  A \<^verbatim>\<open>*node\<close>. \<^verbatim>\<open>rest.go\<close> reads its fields \<^verbatim>\<open>method\<close>, \<^verbatim>\<open>path\<close> (a compiled
  regular expression, of which only \<^verbatim>\<open>MatchString\<close> is used) and \<^verbatim>\<open>request\<close> (the
  request-body type, nil when the route declares none), and calls its methods
  \<^verbatim>\<open>match\<close> and \<^verbatim>\<open>handle\<close>, whose code is not part of \<^verbatim>\<open>rest.go\<close>: they are
  fields of the record, so every route carries its own.

  \<^item> \<open>match n method url\<close> is the pair \<^verbatim>\<open>([]reflect.Value, error)\<close>: \<open>Inl e\<close> the
    error, \<open>Inr args\<close> the converted path arguments.
  \<^item> \<open>handle n inst ctx args w\<close> runs the bound service method on the service instance
    \<open>inst\<close> (the struct \<^verbatim>\<open>s.instance\<close> refers to) with the context (a pointer, nil is
    \<open>None\<close>) and the arguments. It may change the instance, write to the response
    writer (through the context) and panic: the result is the instance and the writer
    as it leaves them, and the value of the panic if it panicked.
\<close>

record ('v, 'st) node =
  "method" :: string
  path :: "string \<Rightarrow> bool"
  request :: "string option"
  match :: "string \<Rightarrow> string \<Rightarrow> string + 'v list"
  handle :: "'st \<Rightarrow> 'v Context option \<Rightarrow> 'v list \<Rightarrow> ResponseWriter
               \<Rightarrow> ('st \<times> ResponseWriter) \<times> panicValue option"

text \<open>
  The router. \<^verbatim>\<open>instance\<close> is the \<^verbatim>\<open>reflect.Value\<close> referring to the service
  struct; where line 163 looks into it, it is an \<open>Instance\<close> record or an extension
  of one.
\<close>

record ('v, 'st) Rest =
  prefix :: string
  defaultCharset :: string
  defaultMime :: string
  "instance" :: 'st
  handlers :: "('v, 'st) node list"

definition Prefix :: "('v, 'st) Rest \<Rightarrow> string" where
  "Prefix s = prefix s"

subsection \<open>findNode\<close>

text \<open>
  The loop of \<^verbatim>\<open>findNode\<close> over \<^verbatim>\<open>s.handlers\<close>: a route of another method is
  skipped, the first one whose pattern matches the path is returned, nil (\<open>None\<close>) when
  the list is exhausted.
\<close>

fun findNode_loop :: "('v, 'st) node list \<Rightarrow> Request \<Rightarrow> ('v, 'st) node option" where
  "findNode_loop [] r = None"
| "findNode_loop (h # hs) r =
     (if method h \<noteq> Method r then findNode_loop hs r
      else if path h (Path r) then Some h
      else findNode_loop hs r)"

definition findNode :: "('v, 'st) Rest \<Rightarrow> Request \<Rightarrow> ('v, 'st) node option" where
  "findNode s r = findNode_loop (handlers s) r"

subsection \<open>ServeHTTP\<close>

text \<open>
  Lines 135 to 161 of \<^verbatim>\<open>ServeHTTP\<close> end in one of three ways: a \<^verbatim>\<open>return\<close> with the
  locals \<^verbatim>\<open>errorCode\<close> and \<^verbatim>\<open>err\<close> set, a run-time panic, or they reach line 163
  with a route, a context and the arguments for the handler.
\<close>

datatype ('v, 'st) flow =
    Return nat "string option"
  | Panic string
  | Invoke "('v, 'st) node" "'v Context option" "'v list"

text \<open>
  \<^verbatim>\<open>newContent(w, r, defaultMime, defaultCharset)\<close> is not part of \<^verbatim>\<open>rest.go\<close> and is
  a parameter: it yields the pair \<^verbatim>\<open>(*context, error)\<close>, the context possibly nil. It is
  taken not to write to \<^verbatim>\<open>w\<close>. Selecting \<^verbatim>\<open>ctx.marshaller\<close> on a nil context is a
  nil-pointer dereference, a run-time panic (its value is not nil).

  The local \<^verbatim>\<open>err\<close> is nil when line 148 tests it: every earlier assignment to it is
  followed by \<^verbatim>\<open>return\<close>. The error of \<^verbatim>\<open>newContent\<close> is in \<^verbatim>\<open>e\<close>.
\<close>

definition nilDereference :: string where
  "nilDereference = ''runtime error: invalid memory address or nil pointer dereference''"

definition prepare ::
  "(Request \<Rightarrow> string \<Rightarrow> string \<Rightarrow> 'v Context option \<times> string option)
     \<Rightarrow> ('v, 'st) Rest \<Rightarrow> Request \<Rightarrow> ('v, 'st) flow" where
  "prepare newContent s r =
     (let err = (None :: string option) in
      case findNode s r of
        None \<Rightarrow> Return StatusNotFound (Some (''can't find node to process '' @ Path r))
      | Some node \<Rightarrow>
          (case match node (Method r) (Path r) of
             Inl e \<Rightarrow> Return StatusNotFound (Some e)
           | Inr args \<Rightarrow>
               (case newContent r (defaultMime s) (defaultCharset s) of
                  (ctx, e) \<Rightarrow>
                    if err \<noteq> None then Return StatusBadRequest e
                    else
                      (case request node of
                         None \<Rightarrow> Invoke node ctx args
                       | Some req \<Rightarrow>
                           (case ctx of
                              None \<Rightarrow> Panic nilDereference
                            | Some c \<Rightarrow>
                                (case Unmarshal (marshaller c) (Body r) req of
                                   Inl ue \<Rightarrow>
                                     Return StatusBadRequest
                                       (Some (''can't marshal request to type '' @ req
                                                @ '': '' @ ue))
                                 | Inr v \<Rightarrow> Invoke node ctx (args @ [v])))))))"

text \<open>
  The state of one call of \<^verbatim>\<open>ServeHTTP\<close> when its body is left: the two locals the
  deferred function reads, the response writer, the service instance, and the panic in
  flight (if any) with its value.
\<close>

record 'st frame =
  err :: "string option"
  errorCode :: nat
  w :: ResponseWriter
  inst :: 'st
  panicking :: "panicValue option"

text \<open>
  The body, lines 135 to 166. Line 163 copies the \<^verbatim>\<open>Service\<close> value of field 0 of
  the instance and line 164 stores the context in the copy; when line 163 panics
  (\<open>assertService\<close>), the handler is not called. Line 166 hands route, instance,
  context and arguments to \<^verbatim>\<open>node.handle\<close>. Both locals are still unset (nil and 0)
  when line 163 is reached or a panic is raised.
\<close>

definition ServeHTTP_body ::
  "(Request \<Rightarrow> string \<Rightarrow> string \<Rightarrow> 'v Context option \<times> string option)
     \<Rightarrow> ('v, 'a Instance_scheme) Rest \<Rightarrow> ResponseWriter \<Rightarrow> Request
     \<Rightarrow> 'a Instance_scheme frame" where
  "ServeHTTP_body newContent s w0 r =
     (case prepare newContent s r of
        Return code e \<Rightarrow>
          \<lparr>err = e, errorCode = code, w = w0, inst = instance s, panicking = None\<rparr>
      | Panic v \<Rightarrow>
          \<lparr>err = None, errorCode = 0, w = w0, inst = instance s,
           panicking = Some (PanicValue v)\<rparr>
      | Invoke node ctx args \<Rightarrow>
          (case assertService (reflected (instance s)) of
             Some v \<Rightarrow>
               \<lparr>err = None, errorCode = 0, w = w0, inst = instance s,
                panicking = Some (PanicValue v)\<rparr>
           | None \<Rightarrow>
               (case handle node (instance s) ctx args w0 of
                  ((st', w'), p) \<Rightarrow>
                    \<lparr>err = None, errorCode = 0, w = w', inst = st', panicking = p\<rparr>)))"

text \<open>
  \<^verbatim>\<open>recover()\<close>, called by the deferred function itself: it stops the panic in flight
  and yields its value, nil when there is no panic and nil when the value of the panic
  is nil (the repository has no \<^verbatim>\<open>go.mod\<close>; it is built with the semantics before Go
  1.21, which has \<^verbatim>\<open>recover()\<close> return nil after \<^verbatim>\<open>panic(nil)\<close>). The first component
  is what \<^verbatim>\<open>recover()\<close> returns, the second the panic still in flight.
\<close>

definition recover :: "panicValue option \<Rightarrow> string option \<times> panicValue option" where
  "recover p =
     (case p of
        None \<Rightarrow> (None, None)
      | Some PanicNil \<Rightarrow> (None, None)
      | Some (PanicValue v) \<Rightarrow> (Some v, None))"

text \<open>The deferred function, lines 124 to 133.\<close>

definition ServeHTTP_deferred :: "'st frame \<Rightarrow> 'st frame" where
  "ServeHTTP_deferred fr =
     (case recover (panicking fr) of
        (r, p) \<Rightarrow>
          (let fr1 = fr\<lparr>panicking := p\<rparr>;
               fr2 = (case r of
                        None \<Rightarrow> fr1
                      | Some v \<Rightarrow>
                          fr1\<lparr>errorCode := StatusInternalServerError,
                              err := Some (''panic: '' @ v)\<rparr>)
           in case err fr2 of
                None \<Rightarrow> fr2
              | Some m \<Rightarrow> fr2\<lparr>w := http_Error (w fr2) m (errorCode fr2)\<rparr>))"

text \<open>
  \<^verbatim>\<open>ServeHTTP\<close>: the body, then the deferred function. The result is the router (the
  receiver is passed by value and no field is assigned; only the struct behind
  \<^verbatim>\<open>instance\<close> can have been changed, by the handler), the response writer, and the
  panic that leaves \<^verbatim>\<open>ServeHTTP\<close> (\<open>None\<close> when it returns).
\<close>

definition ServeHTTP ::
  "(Request \<Rightarrow> string \<Rightarrow> string \<Rightarrow> 'v Context option \<times> string option)
     \<Rightarrow> ('v, 'a Instance_scheme) Rest \<Rightarrow> ResponseWriter \<Rightarrow> Request
     \<Rightarrow> (('v, 'a Instance_scheme) Rest \<times> ResponseWriter) \<times> panicValue option" where
  "ServeHTTP newContent s w0 r =
     (let fr = ServeHTTP_deferred (ServeHTTP_body newContent s w0 r)
      in ((s\<lparr>instance := inst fr\<rparr>, w fr), panicking fr))"

section \<open>Construction\<close>

text \<open>A call either returns or panics (with the panic value's rendering).\<close>

datatype 'a outcome = Returns 'a | Panics string

text \<open>
  The loop of \<^verbatim>\<open>New\<close> over the fields, lines 92 to 104. \<^verbatim>\<open>handler.Interface()\<close>
  panics on a field that is not exported. \<^verbatim>\<open>newNode\<close> is not part of \<^verbatim>\<open>rest.go\<close> and
  is a parameter: given the struct, the prefix and the field it yields an error or a
  node.
\<close>

fun New_loop ::
  "(Value \<Rightarrow> string \<Rightarrow> StructField \<Rightarrow> string + ('v, Instance) node)
     \<Rightarrow> Value \<Rightarrow> string \<Rightarrow> StructField list \<Rightarrow> ('v, Instance) node list
     \<Rightarrow> (string + ('v, Instance) node list) outcome" where
  "New_loop newNode t pre [] hs = Returns (Inr hs)"
| "New_loop newNode t pre (f # fs) hs =
     (if PkgPath f \<noteq> [] then Panics unexportedField
      else if \<not> IsNode f then New_loop newNode t pre fs hs
      else (case newNode t pre f of
              Inl e \<Rightarrow> Returns (Inl e)
            | Inr n \<Rightarrow> New_loop newNode t pre fs (hs @ [n])))"

text \<open>
  \<^verbatim>\<open>New\<close>. The result is the pair \<^verbatim>\<open>(*Rest, error)\<close>, each possibly nil.
  \<^verbatim>\<open>initService\<close> is not part of \<^verbatim>\<open>rest.go\<close> and is a parameter: from field 0 it yields
  prefix, mime, charset and an error. \<^verbatim>\<open>Type()\<close> of the zero \<^verbatim>\<open>Value\<close> and
  \<^verbatim>\<open>FieldByName\<close> on a type that is not a struct panic. The format of line 70 has a
  verb and no operand. Of the anchor \<^verbatim>\<open>New\<close> itself checks the name and the place,
  not the type.
\<close>

definition New ::
  "(StructField \<Rightarrow> (string \<times> string \<times> string) \<times> string option)
     \<Rightarrow> (Value \<Rightarrow> string \<Rightarrow> StructField \<Rightarrow> string + ('v, Instance) node)
     \<Rightarrow> Value \<Rightarrow> (('v, Instance) Rest option \<times> string option) outcome" where
  "New initService newNode i =
     (if Kind_of i \<noteq> Struct \<and> Kind_of i \<noteq> Ptr then
        Returns (None, Some (''%!s(MISSING)'' @ CHR 0x27 # ''s kind must struct or point to struct''))
      else
        (case (if Kind_of i = Ptr then Elem i else Some i) of
           None \<Rightarrow> Panics ''reflect: call of reflect.Value.Type on zero Value''
         | Some (StructValue t fs) \<Rightarrow>
             (case FieldByName fs ''Service'' of
                None \<Rightarrow> Returns (None, Some ''can't find restful.Service field'')
              | Some (idx, serviceType) \<Rightarrow>
                  if idx \<noteq> 0 then
                    Returns (None, Some (t @ CHR 0x27 # ''s 1st field must be restful.Service''))
                  else
                    (case initService serviceType of
                       ((pre, mime, charset), Some e) \<Rightarrow> Returns (None, Some e)
                     | ((pre, mime, charset), None) \<Rightarrow>
                         (case New_loop newNode (StructValue t fs) pre fs [] of
                            Panics v \<Rightarrow> Panics v
                          | Returns (Inl e) \<Rightarrow> Returns (None, Some e)
                          | Returns (Inr hs) \<Rightarrow>
                              Returns (Some \<lparr>prefix = pre, defaultCharset = charset,
                                             defaultMime = mime,
                                             instance = \<lparr>reflected = StructValue t fs\<rparr>,
                                             handlers = hs\<rparr>, None))))
         | Some _ \<Rightarrow> Panics ''reflect: FieldByName of non-struct type''))"

section \<open>Handler names\<close>

text \<open>
  \<^verbatim>\<open>StructTag.Get\<close>: the value of a key of the tag, the empty string when the tag has
  no such key.
\<close>

definition Get :: "(string \<times> string) list \<Rightarrow> string \<Rightarrow> string" where
  "Get tag key = (case map_of tag key of None \<Rightarrow> [] | Some v \<Rightarrow> v)"

text \<open>
  Modelled from the spec: \<^verbatim>\<open>newNode\<close>, whose code is not part of \<^verbatim>\<open>rest.go\<close>; of
  it, the name of the handler of a routable field: ``parse its tags into method, path,
  func-name (defaulting to "Handle"+FieldName), mime, charset''.
\<close>

definition funcName :: "StructField \<Rightarrow> string" where
  "funcName f =
     (let name = Get (Tag f) ''func''
      in if name = [] then ''Handle'' @ Name f else name)"

text \<open>
  Modelled from the spec: the binding \<^verbatim>\<open>newNode\<close> makes, ``resolves the handler name
  to a concrete function in the service's behavior set''. The behaviour set is the
  method table of the service type, from method names to methods; an unresolved name
  binds nothing.
\<close>

definition bindHandler :: "(string \<rightharpoonup> 'h) \<Rightarrow> StructField \<Rightarrow> 'h option" where
  "bindHandler methods f = methods (funcName f)"

section \<open>An example service\<close>

text \<open>
  A small router in the manner of the package documentation, for concrete instances of
  the properties below. Arguments and decoded bodies are strings. The service struct
  has the \<^verbatim>\<open>Service\<close> anchor as its field 0; its data is a counter of the handler
  calls that changed it.

  The marshaller rejects an empty body. \<open>exampleContent\<close> always yields a context;
  \<open>brokenContent\<close> yields the same context together with an error.
\<close>

record Counted = Instance +
  calls :: nat

definition anchor :: StructField where
  "anchor =
     \<lparr>Name = ''Service'', PkgPath = [], Tag = [(''prefix'', ''/prefix'')],
      IsService = True, IsNode = False\<rparr>"

definition exampleInstance :: Counted where
  "exampleInstance = \<lparr>reflected = StructValue ''Example'' [anchor], calls = 0\<rparr>"

definition exampleMarshaller :: "string Marshaller" where
  "exampleMarshaller =
     \<lparr>Unmarshal = (\<lambda>body ty. if body = [] then Inl ''EOF'' else Inr body)\<rparr>"

definition exampleContent ::
  "Request \<Rightarrow> string \<Rightarrow> string \<Rightarrow> string Context option \<times> string option" where
  "exampleContent r mime charset = (Some \<lparr>marshaller = exampleMarshaller\<rparr>, None)"

definition brokenContent ::
  "Request \<Rightarrow> string \<Rightarrow> string \<Rightarrow> string Context option \<times> string option" where
  "brokenContent r mime charset =
     (Some \<lparr>marshaller = exampleMarshaller\<rparr>, Some ''can't find marshaller'')"

definition isDigit :: "char \<Rightarrow> bool" where
  "isDigit c = (c \<in> set ''0123456789'')"

text \<open>
  \<open>getItem\<close> captures the rest of the path for an integer parameter: its \<open>match\<close> fails
  on a segment that is not a number. \<open>getAny\<close> overlaps with it and is declared after
  it; its handler writes a response and then panics. \<open>postConv\<close> declares a request
  body. The handler of \<open>postCrash\<close> panics before it writes anything, and so does the
  handler of \<open>postNil\<close>, with \<^verbatim>\<open>panic(nil)\<close>.
\<close>

definition getItem :: "(string, Counted) node" where
  "getItem =
     \<lparr>method = ''GET'',
      path = (\<lambda>p. take 6 p = ''/item/''),
      request = None,
      match = (\<lambda>m p. let seg = drop 6 p in
                 if seg \<noteq> [] \<and> list_all isDigit seg then Inr [seg]
                 else Inl (''strconv.ParseInt: parsing '' @ seg @ '': invalid syntax'')),
      handle = (\<lambda>st ctx args w. ((st, w @ [Write (concat args)]), None))\<rparr>"

definition getAny :: "(string, Counted) node" where
  "getAny =
     \<lparr>method = ''GET'',
      path = (\<lambda>p. take 1 p = ''/''),
      request = None,
      match = (\<lambda>m p. Inr []),
      handle = (\<lambda>st ctx args w.
                  ((st\<lparr>calls := Suc (calls st)\<rparr>, w @ [WriteHeader 200, Write ''partial'']),
                   Some (PanicValue ''boom'')))\<rparr>"

definition postConv :: "(string, Counted) node" where
  "postConv =
     \<lparr>method = ''POST'',
      path = (\<lambda>p. p = ''/conversation''),
      request = Some ''string'',
      match = (\<lambda>m p. Inr [''me'']),
      handle = (\<lambda>st ctx args w.
                  ((st\<lparr>calls := Suc (calls st)\<rparr>,
                    w @ [Write (''just post: '' @ concat args)]), None))\<rparr>"

definition postCrash :: "(string, Counted) node" where
  "postCrash =
     \<lparr>method = ''POST'',
      path = (\<lambda>p. p = ''/crash''),
      request = None,
      match = (\<lambda>m p. Inr []),
      handle = (\<lambda>st ctx args w. ((st, w), Some (PanicValue ''boom'')))\<rparr>"

definition postNil :: "(string, Counted) node" where
  "postNil =
     \<lparr>method = ''POST'',
      path = (\<lambda>p. p = ''/nil''),
      request = None,
      match = (\<lambda>m p. Inr []),
      handle = (\<lambda>st ctx args w. ((st, w), Some PanicNil))\<rparr>"

definition exampleRest :: "(string, Counted) Rest" where
  "exampleRest =
     \<lparr>prefix = [], defaultCharset = ''utf-8'', defaultMime = ''application/json'',
      instance = exampleInstance,
      handlers = [getItem, getAny, postConv, postCrash, postNil]\<rparr>"

text \<open>
  The same router over a struct whose field 0 has the name \<^verbatim>\<open>Service\<close> and holds a
  value of another type.
\<close>

definition strayRest :: "(string, Counted) Rest" where
  "strayRest =
     exampleRest\<lparr>instance :=
       \<lparr>reflected = StructValue ''Stray'' [anchor\<lparr>IsService := False\<rparr>], calls = 0\<rparr>\<rparr>"

definition GET :: "string \<Rightarrow> Request" where
  "GET p = \<lparr>Method = ''GET'', Path = p, Body = []\<rparr>"

definition POST :: "string \<Rightarrow> string \<Rightarrow> Request" where
  "POST p b = \<lparr>Method = ''POST'', Path = p, Body = b\<rparr>"

text \<open>
  The field \<^verbatim>\<open>CreateHello\<close> of the \<^verbatim>\<open>RestExample\<close> service, which has no
  \<^verbatim>\<open>func\<close> tag, and the methods of \<^verbatim>\<open>RestExample\<close> (numbered).
\<close>

definition CreateHello :: StructField where
  "CreateHello =
     \<lparr>Name = ''CreateHello'', PkgPath = [],
      Tag = [(''method'', ''POST''), (''path'', ''/hello'')],
      IsService = False, IsNode = True\<rparr>"

definition RestExample_methods :: "string \<rightharpoonup> nat" where
  "RestExample_methods =
     map_of [(''HandleCreateHello'', 1), (''HandleHello'', 2), (''HandleWatch'', 3)]"

text \<open>
  A service struct with an unexported field declared before a routable field whose tag
  lacks the required \<^verbatim>\<open>method\<close> key, and an \<^verbatim>\<open>initService\<close> that reads the
  anchor's tag and accepts it.
\<close>

definition Broken :: Value where
  "Broken =
     StructValue ''Broken''
       [\<lparr>Name = ''Service'', PkgPath = [], Tag = [(''prefix'', ''/prefix'')],
         IsService = True, IsNode = False\<rparr>,
        \<lparr>Name = ''hits'', PkgPath = ''main'', Tag = [], IsService = False, IsNode = False\<rparr>,
        \<lparr>Name = ''Bad'', PkgPath = [], Tag = [(''path'', ''/x'')],
         IsService = False, IsNode = True\<rparr>]"

definition exampleInitService ::
  "StructField \<Rightarrow> (string \<times> string \<times> string) \<times> string option" where
  "exampleInitService f =
     ((Get (Tag f) ''prefix'', Get (Tag f) ''mime'', Get (Tag f) ''charset''), None)"

section \<open>Route selection\<close>

lemma findNode_loop_find:
  "findNode_loop hs r = find (\<lambda>h. method h = Method r \<and> path h (Path r)) hs"
  by (induction hs) auto

lemma findNode_None_iff:
  "findNode s r = None \<longleftrightarrow>
     (\<forall>h\<in>set (handlers s). \<not> (method h = Method r \<and> path h (Path r)))"
  unfolding findNode_def findNode_loop_find find_None_iff by blast

text \<open>
  C2. \<^verbatim>\<open>findNode\<close>, by which \<^verbatim>\<open>ServeHTTP\<close> selects the route, returns \<open>h\<close> exactly
  when \<open>h\<close> stands at some position of \<^verbatim>\<open>s.handlers\<close>, its method is the request's
  and its pattern matches the request's path, and no route at an earlier position has
  both; it returns nil exactly when no route has both. Nothing but the position decides
  among overlapping routes. (\<^verbatim>\<open>New\<close> fills \<^verbatim>\<open>s.handlers\<close> in the order of the fields:
  \<open>New_handlers_in_field_order\<close> below.)
\<close>

theorem findNode_first_declared_match:
  "(findNode s r = Some h \<longleftrightarrow>
      (\<exists>i<length (handlers s).
          handlers s ! i = h \<and> method h = Method r \<and> path h (Path r) \<and>
          (\<forall>j<i. \<not> (method (handlers s ! j) = Method r
                      \<and> path (handlers s ! j) (Path r)))))
   \<and> (findNode s r = None \<longleftrightarrow>
      (\<forall>h\<in>set (handlers s). \<not> (method h = Method r \<and> path h (Path r))))"
proof -
  have "findNode s r = Some h \<longleftrightarrow>
      (\<exists>i<length (handlers s).
          handlers s ! i = h \<and> method h = Method r \<and> path h (Path r) \<and>
          (\<forall>j<i. \<not> (method (handlers s ! j) = Method r
                      \<and> path (handlers s ! j) (Path r))))"
    unfolding findNode_def findNode_loop_find find_Some_iff by blast
  then show ?thesis
    using findNode_None_iff by blast
qed

text \<open>
  An instance: \<open>getItem\<close> and \<open>getAny\<close> both match \<^verbatim>\<open>GET /item/7\<close>; \<open>getItem\<close>,
  declared first, is selected.
\<close>

theorem findNode_first_declared_match_witness:
  "method getAny = Method (GET ''/item/7'') \<and> path getAny (Path (GET ''/item/7''))
   \<and> findNode exampleRest (GET ''/item/7'') = Some getItem"
proof -
  have both: "method getAny = Method (GET ''/item/7'') \<and> path getAny (Path (GET ''/item/7''))"
    by (simp add: getAny_def GET_def)
  have "0 < length (handlers exampleRest) \<and> handlers exampleRest ! 0 = getItem
        \<and> method getItem = Method (GET ''/item/7'') \<and> path getItem (Path (GET ''/item/7''))
        \<and> (\<forall>j<0. \<not> (method (handlers exampleRest ! j) = Method (GET ''/item/7'')
                        \<and> path (handlers exampleRest ! j) (Path (GET ''/item/7''))))"
    by (simp add: exampleRest_def getItem_def GET_def)
  then have "\<exists>i<length (handlers exampleRest).
        handlers exampleRest ! i = getItem
        \<and> method getItem = Method (GET ''/item/7'') \<and> path getItem (Path (GET ''/item/7''))
        \<and> (\<forall>j<i. \<not> (method (handlers exampleRest ! j) = Method (GET ''/item/7'')
                        \<and> path (handlers exampleRest ! j) (Path (GET ''/item/7''))))"
    by blast
  then have "findNode exampleRest (GET ''/item/7'') = Some getItem"
    using findNode_first_declared_match [of exampleRest "GET ''/item/7''" getItem] by blast
  with both show ?thesis by blast
qed


section \<open>Dispatch\<close>

subsection \<open>The deferred function and the ways through the body\<close>

lemma deferred_return:
  "ServeHTTP_deferred \<lparr>err = Some m, errorCode = c, w = w0, inst = st, panicking = None\<rparr>
     = \<lparr>err = Some m, errorCode = c, w = http_Error w0 m c, inst = st, panicking = None\<rparr>"
  by (simp add: ServeHTTP_deferred_def recover_def)

lemma deferred_quiet:
  "ServeHTTP_deferred \<lparr>err = None, errorCode = c, w = w0, inst = st, panicking = None\<rparr>
     = \<lparr>err = None, errorCode = c, w = w0, inst = st, panicking = None\<rparr>"
  by (simp add: ServeHTTP_deferred_def recover_def)

lemma deferred_panic:
  "ServeHTTP_deferred
     \<lparr>err = e, errorCode = c, w = w0, inst = st, panicking = Some (PanicValue v)\<rparr>
     = \<lparr>err = Some (''panic: '' @ v), errorCode = StatusInternalServerError,
        w = http_Error w0 (''panic: '' @ v) StatusInternalServerError, inst = st,
        panicking = None\<rparr>"
  by (simp add: ServeHTTP_deferred_def recover_def)

lemma deferred_panic_nil:
  "ServeHTTP_deferred
     \<lparr>err = None, errorCode = c, w = w0, inst = st, panicking = Some PanicNil\<rparr>
     = \<lparr>err = None, errorCode = c, w = w0, inst = st, panicking = None\<rparr>"
  by (simp add: ServeHTTP_deferred_def recover_def)

lemma deferred_stops_panic: "panicking (ServeHTTP_deferred fr) = None"
  by (simp add: ServeHTTP_deferred_def recover_def Let_def
           split: option.splits panicValue.splits)

lemma ServeHTTP_returns: "snd (ServeHTTP newContent s w0 r) = None"
  by (simp add: ServeHTTP_def Let_def deferred_stops_panic)

lemma ServeHTTP_keeps_routes:
  "fst (fst (ServeHTTP newContent s w0 r)) =
     s\<lparr>instance := instance (fst (fst (ServeHTTP newContent s w0 r)))\<rparr>"
  by (simp add: ServeHTTP_def Let_def)

lemma ServeHTTP_Return:
  "prepare newContent s r = Return c (Some m) \<Longrightarrow>
   ServeHTTP newContent s w0 r = ((s, http_Error w0 m c), None)"
  by (simp add: ServeHTTP_def ServeHTTP_body_def deferred_return)

text \<open>
  The handler is called when lines 135 to 161 get through and line 163 completes. What
  the deferred function then writes depends on how the handler ends: nothing after a
  return and after \<^verbatim>\<open>panic(nil)\<close>, the report of the panic otherwise.
\<close>

lemma ServeHTTP_Invoke:
  assumes "prepare newContent s r = Invoke node ctx args"
      and "assertService (reflected (instance s)) = None"
      and "handle node (instance s) ctx args w0 = ((st', w'), p)"
  shows "ServeHTTP newContent s w0 r =
           ((s\<lparr>instance := st'\<rparr>,
             case p of
               None \<Rightarrow> w'
             | Some PanicNil \<Rightarrow> w'
             | Some (PanicValue v) \<Rightarrow>
                 http_Error w' (''panic: '' @ v) StatusInternalServerError), None)"
proof (cases p)
  case None
  with assms show ?thesis
    by (simp add: ServeHTTP_def ServeHTTP_body_def deferred_quiet)
next
  case (Some a)
  with assms show ?thesis
    by (cases a)
       (simp_all add: ServeHTTP_def ServeHTTP_body_def deferred_panic deferred_panic_nil)
qed

text \<open>
  When line 163 panics, the handler is not called: the instance and the writer are as
  they were, and the deferred function reports the panic of line 163.
\<close>

lemma ServeHTTP_anchor_not_Service:
  "prepare newContent s r = Invoke node ctx args \<Longrightarrow>
   assertService (reflected (instance s)) = Some m \<Longrightarrow>
   ServeHTTP newContent s w0 r =
     ((s, http_Error w0 (''panic: '' @ m) StatusInternalServerError), None)"
  by (simp add: ServeHTTP_def ServeHTTP_body_def deferred_panic)

lemma prepare_no_route:
  "findNode s r = None \<Longrightarrow>
   prepare newContent s r =
     Return StatusNotFound (Some (''can't find node to process '' @ Path r))"
  by (simp add: prepare_def)

lemma prepare_match_error:
  "findNode s r = Some node \<Longrightarrow> match node (Method r) (Path r) = Inl e \<Longrightarrow>
   prepare newContent s r = Return StatusNotFound (Some e)"
  by (simp add: prepare_def)

lemma prepare_matched:
  "findNode s r = Some node \<Longrightarrow> match node (Method r) (Path r) = Inr args \<Longrightarrow>
   newContent r (defaultMime s) (defaultCharset s) = (ctx, e) \<Longrightarrow>
   prepare newContent s r =
     (case request node of
        None \<Rightarrow> Invoke node ctx args
      | Some req \<Rightarrow>
          (case ctx of
             None \<Rightarrow> Panic nilDereference
           | Some c \<Rightarrow>
               (case Unmarshal (marshaller c) (Body r) req of
                  Inl ue \<Rightarrow>
                    Return StatusBadRequest
                      (Some (''can't marshal request to type '' @ req @ '': '' @ ue))
                | Inr v \<Rightarrow> Invoke node ctx (args @ [v]))))"
  by (simp add: prepare_def)

text \<open>Evaluation of the example router.\<close>

lemmas example_defs =
  exampleRest_def exampleInstance_def anchor_def getItem_def getAny_def postConv_def
  postCrash_def postNil_def exampleContent_def brokenContent_def
  exampleMarshaller_def isDigit_def GET_def POST_def

lemma findNode_example_item: "findNode exampleRest (GET (''/item/'' @ seg)) = Some getItem"
  by (simp add: findNode_def example_defs)

lemma findNode_example_crash: "findNode exampleRest (POST ''/crash'' b) = Some postCrash"
  by (simp add: findNode_def example_defs)

lemma findNode_example_nil: "findNode exampleRest (POST ''/nil'' b) = Some postNil"
  by (simp add: findNode_def example_defs)

lemma findNode_example_post:
  "findNode exampleRest (POST ''/conversation'' b) = Some postConv"
  by (simp add: findNode_def example_defs)

lemma findNode_example_any:
  "take 6 p \<noteq> ''/item/'' \<Longrightarrow> take 1 p = ''/'' \<Longrightarrow> findNode exampleRest (GET p) = Some getAny"
  by (simp add: findNode_def example_defs)

lemma example_anchor_is_Service: "assertService (reflected (instance exampleRest)) = None"
  by (simp add: assertService_def example_defs)

lemma example_instance_unchanged: "exampleRest\<lparr>instance := exampleInstance\<rparr> = exampleRest"
  by (simp add: exampleRest_def)

lemma stray_anchor_is_no_Service:
  "assertService (reflected (instance strayRest)) = Some notService"
  by (simp add: assertService_def strayRest_def example_defs)

subsection \<open>No route\<close>

text \<open>
  C5. When no declared route has both the request's method and a pattern matching its
  path, \<^verbatim>\<open>ServeHTTP\<close> reports through \<^verbatim>\<open>http.Error\<close> the status 404 and the text
  \<^verbatim>\<open>can't find node to process\<close> followed by the request's path, and returns. The call
  of the handler is not reached: the service instance is as it was and nothing else is
  written.
\<close>

theorem ServeHTTP_no_route_404:
  assumes "\<forall>h\<in>set (handlers s). \<not> (method h = Method r \<and> path h (Path r))"
  shows "ServeHTTP newContent s w0 r =
           ((s, w0 @ [WriteHeader 404,
                      Write (''can't find node to process '' @ Path r @ [CHR 0x0A])]), None)
         \<and> (\<forall>n ctx args. prepare newContent s r \<noteq> Invoke n ctx args)"
proof -
  have none: "findNode s r = None"
    using assms by (simp add: findNode_None_iff)
  show ?thesis
    using ServeHTTP_Return [OF prepare_no_route [OF none], of newContent w0]
    by (simp add: prepare_no_route [OF none] http_Error_def StatusNotFound_def)
qed

theorem ServeHTTP_no_route_404_witness:
  "ServeHTTP exampleContent exampleRest [] (POST ''/item/7'' ''x'') =
     ((exampleRest,
       [WriteHeader 404, Write (''can't find node to process /item/7'' @ [CHR 0x0A])]), None)"
proof -
  have h: "\<forall>h\<in>set (handlers exampleRest).
             \<not> (method h = Method (POST ''/item/7'' ''x'')
                \<and> path h (Path (POST ''/item/7'' ''x'')))"
    by (simp add: example_defs)
  show ?thesis
    using ServeHTTP_no_route_404 [OF h, of exampleContent "[]"]
    by (simp add: POST_def)
qed

subsection \<open>A failed match\<close>

text \<open>
  C1, as the code has it. When \<^verbatim>\<open>node.match\<close> returns an error for the selected
  route (a captured segment that does not convert to the integer parameter is one),
  \<^verbatim>\<open>ServeHTTP\<close> reports through \<^verbatim>\<open>http.Error\<close> the status 404 (line 143 sets
  \<^verbatim>\<open>http.StatusNotFound\<close>) and the text of that error, and returns without a panic;
  the call of the handler is not reached.
\<close>

theorem ServeHTTP_match_error_404:
  assumes "findNode s r = Some node"
      and "match node (Method r) (Path r) = Inl e"
  shows "ServeHTTP newContent s w0 r =
           ((s, w0 @ [WriteHeader 404, Write (e @ [CHR 0x0A])]), None)
         \<and> (\<forall>n ctx args. prepare newContent s r \<noteq> Invoke n ctx args)"
  using ServeHTTP_Return [OF prepare_match_error [OF assms], of newContent w0]
  by (simp add: prepare_match_error [OF assms] http_Error_def StatusNotFound_def)

theorem ServeHTTP_match_error_404_witness:
  "ServeHTTP exampleContent exampleRest [] (GET ''/item/x1'') =
     ((exampleRest,
       [WriteHeader 404,
        Write (''strconv.ParseInt: parsing x1: invalid syntax'' @ [CHR 0x0A])]), None)"
proof -
  have f: "findNode exampleRest (GET ''/item/x1'') = Some getItem"
    using findNode_example_item [of "''x1''"] by simp
  have m: "match getItem (Method (GET ''/item/x1'')) (Path (GET ''/item/x1''))
             = Inl ''strconv.ParseInt: parsing x1: invalid syntax''"
    by (simp add: example_defs)
  show ?thesis
    using ServeHTTP_match_error_404 [OF f m, of exampleContent "[]"] by simp
qed

text \<open>
  The claim C1 fails: the segment \<^verbatim>\<open>abc\<close> of \<^verbatim>\<open>GET /item/abc\<close> is not an integer,
  \<open>match\<close> of the selected route returns the conversion error, and the status written
  is 404; 400 is not written.
\<close>

theorem ServeHTTP_conversion_error_not_400_counterexample:
  "findNode exampleRest (GET ''/item/abc'') = Some getItem
   \<and> match getItem ''GET'' ''/item/abc'' = Inl ''strconv.ParseInt: parsing abc: invalid syntax''
   \<and> ServeHTTP exampleContent exampleRest [] (GET ''/item/abc'') =
       ((exampleRest,
         [WriteHeader 404,
          Write (''strconv.ParseInt: parsing abc: invalid syntax'' @ [CHR 0x0A])]), None)
   \<and> WriteHeader 400 \<notin> set (snd (fst (ServeHTTP exampleContent exampleRest []
                                          (GET ''/item/abc''))))"
proof -
  have f: "findNode exampleRest (GET ''/item/abc'') = Some getItem"
    using findNode_example_item [of "''abc''"] by simp
  have m: "match getItem ''GET'' ''/item/abc''
             = Inl ''strconv.ParseInt: parsing abc: invalid syntax''"
    by (simp add: example_defs)
  have p: "prepare exampleContent exampleRest (GET ''/item/abc'')
             = Return StatusNotFound (Some ''strconv.ParseInt: parsing abc: invalid syntax'')"
    using prepare_match_error [OF f, of "''strconv.ParseInt: parsing abc: invalid syntax''"] m
    by (simp add: GET_def)
  show ?thesis
    using f m ServeHTTP_Return [OF p, of "[]"]
    by (simp add: http_Error_def StatusNotFound_def)
qed

subsection \<open>A body that does not decode\<close>

text \<open>
  C4. When the selected route declares a request-body type, its \<^verbatim>\<open>match\<close> succeeds,
  there is a context, and \<^verbatim>\<open>Unmarshal\<close> of its marshaller fails on the request's
  body, \<^verbatim>\<open>ServeHTTP\<close> reports through \<^verbatim>\<open>http.Error\<close> the status 400 and the text
  \<^verbatim>\<open>can't marshal request to type T: e\<close>, and returns. The call of the handler is not
  reached: the service instance is as it was and nothing else is written.
\<close>

theorem ServeHTTP_decode_failure_400:
  assumes "findNode s r = Some node"
      and "match node (Method r) (Path r) = Inr args"
      and "request node = Some req"
      and "newContent r (defaultMime s) (defaultCharset s) = (Some c, e)"
      and "Unmarshal (marshaller c) (Body r) req = Inl ue"
  shows "ServeHTTP newContent s w0 r =
           ((s, w0 @ [WriteHeader 400,
                      Write (''can't marshal request to type '' @ req @ '': '' @ ue
                               @ [CHR 0x0A])]), None)
         \<and> (\<forall>n ctx args. prepare newContent s r \<noteq> Invoke n ctx args)"
proof -
  have p: "prepare newContent s r =
             Return StatusBadRequest
               (Some (''can't marshal request to type '' @ req @ '': '' @ ue))"
    using assms by (simp add: prepare_matched)
  show ?thesis
    using ServeHTTP_Return [OF p, of w0]
    by (simp add: p http_Error_def StatusBadRequest_def)
qed

theorem ServeHTTP_decode_failure_400_witness:
  "ServeHTTP exampleContent exampleRest [] (POST ''/conversation'' []) =
     ((exampleRest,
       [WriteHeader 400,
        Write (''can't marshal request to type string: EOF'' @ [CHR 0x0A])]), None)"
proof -
  have f: "findNode exampleRest (POST ''/conversation'' []) = Some postConv"
    by (rule findNode_example_post)
  have m: "match postConv (Method (POST ''/conversation'' []))
             (Path (POST ''/conversation'' [])) = Inr [''me'']"
    by (simp add: example_defs)
  have q: "request postConv = Some ''string''"
    by (simp add: example_defs)
  have c: "exampleContent (POST ''/conversation'' []) (defaultMime exampleRest)
             (defaultCharset exampleRest) = (Some \<lparr>marshaller = exampleMarshaller\<rparr>, None)"
    by (simp add: example_defs)
  have u: "Unmarshal (marshaller \<lparr>marshaller = exampleMarshaller\<rparr>)
             (Body (POST ''/conversation'' [])) ''string'' = Inl ''EOF''"
    by (simp add: example_defs)
  show ?thesis
    using ServeHTTP_decode_failure_400
            [where newContent = exampleContent and ?w0.0 = "[]", OF f m q c u]
    by simp
qed

subsection \<open>The handler is reached\<close>

text \<open>
  C8. When the selected route declares a request-body type, its \<^verbatim>\<open>match\<close> yields
  the path arguments \<open>args\<close>, and the body decodes to \<open>v\<close>, the arguments made ready
  for the handler of that route are \<open>args @ [v]\<close>: the path arguments in the order
  \<^verbatim>\<open>match\<close> gave them, then the decoded body as the one last argument. When line 163
  completes, the handler is called with exactly these.
\<close>

theorem ServeHTTP_body_is_last_argument:
  assumes "findNode s r = Some node"
      and "match node (Method r) (Path r) = Inr args"
      and "request node = Some req"
      and "newContent r (defaultMime s) (defaultCharset s) = (Some c, e)"
      and "Unmarshal (marshaller c) (Body r) req = Inr v"
  shows "prepare newContent s r = Invoke node (Some c) (args @ [v])
         \<and> (assertService (reflected (instance s)) = None \<longrightarrow>
              ServeHTTP_body newContent s w0 r =
                (case handle node (instance s) (Some c) (args @ [v]) w0 of
                   ((st', w'), p) \<Rightarrow>
                     \<lparr>err = None, errorCode = 0, w = w', inst = st', panicking = p\<rparr>))"
proof -
  have p: "prepare newContent s r = Invoke node (Some c) (args @ [v])"
    using assms by (simp add: prepare_matched)
  then show ?thesis
    by (simp add: ServeHTTP_body_def)
qed

theorem ServeHTTP_body_is_last_argument_witness:
  "prepare exampleContent exampleRest (POST ''/conversation'' ''hi'')
     = Invoke postConv (Some \<lparr>marshaller = exampleMarshaller\<rparr>) [''me'', ''hi'']
   \<and> ServeHTTP_body exampleContent exampleRest [] (POST ''/conversation'' ''hi'')
     = \<lparr>err = None, errorCode = 0, w = [Write ''just post: mehi''],
        inst = exampleInstance\<lparr>calls := 1\<rparr>, panicking = None\<rparr>"
proof -
  have f: "findNode exampleRest (POST ''/conversation'' ''hi'') = Some postConv"
    by (rule findNode_example_post)
  have m: "match postConv (Method (POST ''/conversation'' ''hi''))
             (Path (POST ''/conversation'' ''hi'')) = Inr [''me'']"
    by (simp add: example_defs)
  have q: "request postConv = Some ''string''"
    by (simp add: example_defs)
  have c: "exampleContent (POST ''/conversation'' ''hi'') (defaultMime exampleRest)
             (defaultCharset exampleRest) = (Some \<lparr>marshaller = exampleMarshaller\<rparr>, None)"
    by (simp add: example_defs)
  have u: "Unmarshal (marshaller \<lparr>marshaller = exampleMarshaller\<rparr>)
             (Body (POST ''/conversation'' ''hi'')) ''string'' = Inr ''hi''"
    by (simp add: example_defs)
  have h: "handle postConv (instance exampleRest) (Some \<lparr>marshaller = exampleMarshaller\<rparr>)
             [''me'', ''hi''] []
             = ((exampleInstance\<lparr>calls := 1\<rparr>, [Write ''just post: mehi'']), None)"
    by (simp add: example_defs)
  show ?thesis
    using ServeHTTP_body_is_last_argument
            [where newContent = exampleContent and ?w0.0 = "[]", OF f m q c u]
          example_anchor_is_Service h
    by simp
qed

text \<open>
  C3, as the code has it. When the handler is called and panics with a value \<open>v\<close> that
  is not nil, having left the service instance as \<open>st'\<close> and the response writer as
  \<open>w'\<close>, the deferred function recovers the panic and calls \<^verbatim>\<open>http.Error\<close> with the
  status 500 and the text \<^verbatim>\<open>panic: v\<close>, after what the handler wrote; when the handler
  wrote nothing to a fresh writer, the response has the status 500. \<^verbatim>\<open>ServeHTTP\<close>
  returns, no panic leaves it. The router it leaves has the prefix, defaults and routes
  it had, and the instance as the handler left it.
\<close>

theorem ServeHTTP_recovers_handler_panic:
  assumes "prepare newContent s r = Invoke node ctx args"
      and "assertService (reflected (instance s)) = None"
      and "handle node (instance s) ctx args w0 = ((st', w'), Some (PanicValue v))"
  shows "ServeHTTP newContent s w0 r =
           ((s\<lparr>instance := st'\<rparr>,
             w' @ [WriteHeader 500, Write (''panic: '' @ v @ [CHR 0x0A])]), None)
         \<and> (w' = [] \<longrightarrow>
              statusCode (snd (fst (ServeHTTP newContent s w0 r))) = Some 500)"
  using ServeHTTP_Invoke [OF assms]
  by (simp add: http_Error_def StatusInternalServerError_def)

theorem ServeHTTP_recovers_handler_panic_witness:
  "ServeHTTP exampleContent exampleRest [] (POST ''/crash'' []) =
     ((exampleRest, [WriteHeader 500, Write (''panic: boom'' @ [CHR 0x0A])]), None)
   \<and> statusCode (snd (fst (ServeHTTP exampleContent exampleRest [] (POST ''/crash'' []))))
     = Some 500"
proof -
  have p: "prepare exampleContent exampleRest (POST ''/crash'' [])
             = Invoke postCrash (Some \<lparr>marshaller = exampleMarshaller\<rparr>) []"
    using prepare_matched [OF findNode_example_crash, of "[]" "[]" exampleContent]
    by (simp add: example_defs)
  have h: "handle postCrash (instance exampleRest) (Some \<lparr>marshaller = exampleMarshaller\<rparr>)
             [] [] = ((exampleInstance, []), Some (PanicValue ''boom''))"
    by (simp add: example_defs)
  show ?thesis
    using ServeHTTP_recovers_handler_panic [OF p example_anchor_is_Service h]
    by (simp add: example_instance_unchanged)
qed

text \<open>
  The claim C3 fails in two ways. The handler of \<open>getAny\<close> has written the status 200
  when it panics: the status of the response stays 200, the later
  \<^verbatim>\<open>WriteHeader(500)\<close> does not change it. The handler of \<open>postNil\<close> panics with
  \<^verbatim>\<open>panic(nil)\<close>: \<^verbatim>\<open>recover()\<close> returns nil, line 126 does not hold, and nothing is
  written at all.
\<close>

theorem ServeHTTP_panic_without_500_counterexample:
  "handle getAny (instance exampleRest) (Some \<lparr>marshaller = exampleMarshaller\<rparr>) [] []
     = ((exampleInstance\<lparr>calls := 1\<rparr>, [WriteHeader 200, Write ''partial'']),
        Some (PanicValue ''boom''))
   \<and> statusCode (snd (fst (ServeHTTP exampleContent exampleRest [] (GET ''/crash''))))
       = Some 200
   \<and> handle postNil (instance exampleRest) (Some \<lparr>marshaller = exampleMarshaller\<rparr>) [] []
     = ((exampleInstance, []), Some PanicNil)
   \<and> ServeHTTP exampleContent exampleRest [] (POST ''/nil'' []) = ((exampleRest, []), None)"
proof -
  have f: "findNode exampleRest (GET ''/crash'') = Some getAny"
    by (simp add: findNode_example_any)
  have p: "prepare exampleContent exampleRest (GET ''/crash'')
             = Invoke getAny (Some \<lparr>marshaller = exampleMarshaller\<rparr>) []"
    using prepare_matched [OF f, of "[]" exampleContent]
    by (simp add: example_defs)
  have h: "handle getAny (instance exampleRest) (Some \<lparr>marshaller = exampleMarshaller\<rparr>)
             [] [] = ((exampleInstance\<lparr>calls := 1\<rparr>, [WriteHeader 200, Write ''partial'']),
                      Some (PanicValue ''boom''))"
    by (simp add: example_defs)
  have first: "statusCode (snd (fst (ServeHTTP exampleContent exampleRest []
                 (GET ''/crash'')))) = Some 200"
    using ServeHTTP_Invoke [OF p example_anchor_is_Service h]
    by (simp add: http_Error_def)
  have p': "prepare exampleContent exampleRest (POST ''/nil'' [])
              = Invoke postNil (Some \<lparr>marshaller = exampleMarshaller\<rparr>) []"
    using prepare_matched [OF findNode_example_nil, of "[]" "[]" exampleContent]
    by (simp add: example_defs)
  have h': "handle postNil (instance exampleRest) (Some \<lparr>marshaller = exampleMarshaller\<rparr>)
              [] [] = ((exampleInstance, []), Some PanicNil)"
    by (simp add: example_defs)
  have second: "ServeHTTP exampleContent exampleRest [] (POST ''/nil'' [])
                  = ((exampleRest, []), None)"
    using ServeHTTP_Invoke [OF p' example_anchor_is_Service h']
    by (simp add: example_instance_unchanged)
  show ?thesis
    using h first h' second by simp
qed

text \<open>
  C7, as the code has it. When the handler is called (line 163 completes) and returns,
  \<^verbatim>\<open>ServeHTTP\<close> writes nothing after it: the response writer is left exactly as the
  handler left it, whatever the handler wrote. (When the handler panics with a value
  that is not nil, the deferred function calls \<^verbatim>\<open>http.Error\<close> on the writer whether
  or not the handler has written to it; that case is not part of this statement.)
\<close>

theorem ServeHTTP_silent_after_handler_return:
  assumes "prepare newContent s r = Invoke node ctx args"
      and "assertService (reflected (instance s)) = None"
      and "handle node (instance s) ctx args w0 = ((st', w'), None)"
  shows "ServeHTTP newContent s w0 r = ((s\<lparr>instance := st'\<rparr>, w'), None)"
  using ServeHTTP_Invoke [OF assms] by simp

theorem ServeHTTP_silent_after_handler_return_witness:
  "ServeHTTP exampleContent exampleRest [] (GET ''/item/7'') = ((exampleRest, [Write ''7'']), None)"
proof -
  have p: "prepare exampleContent exampleRest (GET ''/item/7'')
             = Invoke getItem (Some \<lparr>marshaller = exampleMarshaller\<rparr>) [''7'']"
    using prepare_matched [OF findNode_example_item [of "''7''"], of "[''7'']" exampleContent]
    by (simp add: example_defs)
  have h: "handle getItem (instance exampleRest) (Some \<lparr>marshaller = exampleMarshaller\<rparr>)
             [''7''] [] = ((exampleInstance, [Write ''7'']), None)"
    by (simp add: example_defs)
  show ?thesis
    using ServeHTTP_silent_after_handler_return [OF p example_anchor_is_Service h]
    by (simp add: example_instance_unchanged)
qed

text \<open>
  The claim C7 fails: the handler of \<open>getAny\<close> has written a status and a body when it
  panics, and the deferred function writes a status and a body after them.
\<close>

theorem ServeHTTP_writes_after_handler_counterexample:
  "handle getAny (instance exampleRest) (Some \<lparr>marshaller = exampleMarshaller\<rparr>) [] []
     = ((exampleInstance\<lparr>calls := 1\<rparr>, [WriteHeader 200, Write ''partial'']),
        Some (PanicValue ''boom''))
   \<and> snd (fst (ServeHTTP exampleContent exampleRest [] (GET ''/boom''))) =
       [WriteHeader 200, Write ''partial''] @
       [WriteHeader 500, Write (''panic: boom'' @ [CHR 0x0A])]"
proof -
  have f: "findNode exampleRest (GET ''/boom'') = Some getAny"
    by (simp add: findNode_example_any)
  have p: "prepare exampleContent exampleRest (GET ''/boom'')
             = Invoke getAny (Some \<lparr>marshaller = exampleMarshaller\<rparr>) []"
    using prepare_matched [OF f, of "[]" exampleContent]
    by (simp add: example_defs)
  have h: "handle getAny (instance exampleRest) (Some \<lparr>marshaller = exampleMarshaller\<rparr>)
             [] [] = ((exampleInstance\<lparr>calls := 1\<rparr>, [WriteHeader 200, Write ''partial'']),
                      Some (PanicValue ''boom''))"
    by (simp add: example_defs)
  show ?thesis
    using h ServeHTTP_Invoke [OF p example_anchor_is_Service h]
    by (simp add: http_Error_def StatusInternalServerError_def)
qed

text \<open>
  Line 163 at work: in \<open>strayRest\<close> field 0 has the name \<^verbatim>\<open>Service\<close> but is no
  \<^verbatim>\<open>Service\<close>. The request reaches line 163, which panics; the handler of \<open>getItem\<close>
  is not called and the panic is reported with the status 500.
\<close>

lemma ServeHTTP_stray_anchor:
  "ServeHTTP exampleContent strayRest [] (GET ''/item/7'') =
     ((strayRest, [WriteHeader 500, Write (''panic: '' @ notService @ [CHR 0x0A])]), None)"
proof -
  have f: "findNode strayRest (GET ''/item/7'') = Some getItem"
    by (simp add: findNode_def strayRest_def example_defs)
  have p: "prepare exampleContent strayRest (GET ''/item/7'')
             = Invoke getItem (Some \<lparr>marshaller = exampleMarshaller\<rparr>) [''7'']"
    using prepare_matched [OF f, of "[''7'']" exampleContent]
    by (simp add: example_defs)
  show ?thesis
    using ServeHTTP_anchor_not_Service [OF p stray_anchor_is_no_Service]
    by (simp add: http_Error_def StatusInternalServerError_def)
qed

subsection \<open>The error of the context\<close>

text \<open>
  C10. When the route is selected and its \<^verbatim>\<open>match\<close> succeeds, and
  \<^verbatim>\<open>newContent\<close> returns a context \<open>ctx\<close> together with an error \<open>e\<close>, line 148 tests
  \<^verbatim>\<open>err\<close>, which is nil, so the return with status 400 on lines 149 and 150 is not
  taken and \<open>e\<close> is dropped: \<^verbatim>\<open>ServeHTTP\<close> does exactly what it does when
  \<^verbatim>\<open>newContent\<close> returns \<open>ctx\<close> and no error. It goes on with \<open>ctx\<close>: a route
  without request type has its handler called with \<open>ctx\<close>, and a route with a request
  type has the body decoded by the marshaller of \<open>ctx\<close> (a nil \<open>ctx\<close> is dereferenced
  there).
\<close>

theorem ServeHTTP_drops_newContent_error:
  assumes "findNode s r = Some node"
      and "match node (Method r) (Path r) = Inr args"
      and "newContent r (defaultMime s) (defaultCharset s) = (ctx, Some e)"
  shows "ServeHTTP newContent s w0 r = ServeHTTP (\<lambda>r m c. (ctx, None)) s w0 r
         \<and> (request node = None \<longrightarrow> prepare newContent s r = Invoke node ctx args)
         \<and> (\<forall>req. request node = Some req \<longrightarrow>
              prepare newContent s r =
                (case ctx of
                   None \<Rightarrow> Panic nilDereference
                 | Some c \<Rightarrow>
                     (case Unmarshal (marshaller c) (Body r) req of
                        Inl ue \<Rightarrow>
                          Return StatusBadRequest
                            (Some (''can't marshal request to type '' @ req @ '': '' @ ue))
                      | Inr v \<Rightarrow> Invoke node ctx (args @ [v]))))"
proof -
  have with_error: "prepare newContent s r =
     (case request node of
        None \<Rightarrow> Invoke node ctx args
      | Some req \<Rightarrow>
          (case ctx of
             None \<Rightarrow> Panic nilDereference
           | Some c \<Rightarrow>
               (case Unmarshal (marshaller c) (Body r) req of
                  Inl ue \<Rightarrow>
                    Return StatusBadRequest
                      (Some (''can't marshal request to type '' @ req @ '': '' @ ue))
                | Inr v \<Rightarrow> Invoke node ctx (args @ [v]))))"
    using assms by (simp add: prepare_def)
  have without: "prepare (\<lambda>r m c. (ctx, None)) s r =
     (case request node of
        None \<Rightarrow> Invoke node ctx args
      | Some req \<Rightarrow>
          (case ctx of
             None \<Rightarrow> Panic nilDereference
           | Some c \<Rightarrow>
               (case Unmarshal (marshaller c) (Body r) req of
                  Inl ue \<Rightarrow>
                    Return StatusBadRequest
                      (Some (''can't marshal request to type '' @ req @ '': '' @ ue))
                | Inr v \<Rightarrow> Invoke node ctx (args @ [v]))))"
    using assms(1,2) by (simp add: prepare_def)
  have same: "prepare newContent s r = prepare (\<lambda>r m c. (ctx, None)) s r"
    by (simp only: with_error without)
  have "ServeHTTP newContent s w0 r = ServeHTTP (\<lambda>r m c. (ctx, None)) s w0 r"
    by (simp only: ServeHTTP_def ServeHTTP_body_def same)
  then show ?thesis
    by (simp add: with_error)
qed

text \<open>
  An instance: \<open>brokenContent\<close> returns an error, and the handler of \<open>getItem\<close> is
  called all the same; nothing but what the handler writes is written.
\<close>

theorem ServeHTTP_drops_newContent_error_witness:
  "brokenContent (GET ''/item/7'') (defaultMime exampleRest) (defaultCharset exampleRest)
     = (Some \<lparr>marshaller = exampleMarshaller\<rparr>, Some ''can't find marshaller'')
   \<and> prepare brokenContent exampleRest (GET ''/item/7'')
     = Invoke getItem (Some \<lparr>marshaller = exampleMarshaller\<rparr>) [''7'']
   \<and> ServeHTTP brokenContent exampleRest [] (GET ''/item/7'')
     = ((exampleRest, [Write ''7'']), None)"
proof -
  have f: "findNode exampleRest (GET ''/item/7'') = Some getItem"
    using findNode_example_item [of "''7''"] by simp
  have m: "match getItem (Method (GET ''/item/7'')) (Path (GET ''/item/7'')) = Inr [''7'']"
    by (simp add: example_defs)
  have c: "brokenContent (GET ''/item/7'') (defaultMime exampleRest) (defaultCharset exampleRest)
             = (Some \<lparr>marshaller = exampleMarshaller\<rparr>, Some ''can't find marshaller'')"
    by (simp add: example_defs)
  have q: "request getItem = None"
    by (simp add: example_defs)
  have p: "prepare brokenContent exampleRest (GET ''/item/7'')
             = Invoke getItem (Some \<lparr>marshaller = exampleMarshaller\<rparr>) [''7'']"
    using ServeHTTP_drops_newContent_error
            [where newContent = brokenContent and ?w0.0 = "[]", OF f m c] q
    by simp
  have h: "handle getItem (instance exampleRest) (Some \<lparr>marshaller = exampleMarshaller\<rparr>)
             [''7''] [] = ((exampleInstance, [Write ''7'']), None)"
    by (simp add: example_defs)
  show ?thesis
    using c p ServeHTTP_Invoke [OF p example_anchor_is_Service h]
    by (simp add: example_instance_unchanged)
qed

section \<open>Construction\<close>

lemma New_loop_handlers:
  "New_loop newNode t pre fs hs = Returns (Inr hs') \<Longrightarrow>
   map Inr hs' = map Inr hs @ map (newNode t pre) (filter IsNode fs)"
proof (induction fs arbitrary: hs)
  case Nil
  then show ?case by simp
next
  case (Cons f fs)
  show ?case
  proof (cases "IsNode f")
    case False
    with Cons show ?thesis
      by (simp split: if_splits)
  next
    case True
    with Cons.prems obtain n where n: "newNode t pre f = Inr n"
      and rest: "New_loop newNode t pre fs (hs @ [n]) = Returns (Inr hs')"
      by (auto split: if_splits sum.splits)
    from Cons.IH [OF rest] True n show ?thesis
      by simp
  qed
qed

text \<open>
  When \<^verbatim>\<open>New\<close> returns a router, its routes are the nodes of the routable fields of
  the struct, in the order in which the fields are declared.
\<close>

lemma New_handlers_in_field_order:
  assumes "New initService newNode i = Returns (Some s, e)"
  shows "\<exists>t fs. (i = StructValue t fs \<or> i = Pointer (Some (StructValue t fs)))
           \<and> instance s = \<lparr>reflected = StructValue t fs\<rparr>
           \<and> map Inr (handlers s) = map (newNode (StructValue t fs) (prefix s)) (filter IsNode fs)"
proof -
  from assms obtain t fs where i: "i = StructValue t fs \<or> i = Pointer (Some (StructValue t fs))"
    by (cases i rule: Kind_of.cases)
       (auto simp: New_def split: option.splits Value.splits if_splits)
  from assms i obtain f pre mime charset hs where
      "initService f = ((pre, mime, charset), None)"
      and loop: "New_loop newNode (StructValue t fs) pre fs [] = Returns (Inr hs)"
      and s: "s = \<lparr>prefix = pre, defaultCharset = charset, defaultMime = mime,
                   instance = \<lparr>reflected = StructValue t fs\<rparr>, handlers = hs\<rparr>"
    by (auto simp: New_def split: option.splits if_splits prod.splits outcome.splits sum.splits)
  from New_loop_handlers [OF loop] s i show ?thesis
    by auto
qed

text \<open>
  Whenever \<^verbatim>\<open>New\<close> returns, it returns an error and no router, or a router and no
  error; the routes built before a field fails are dropped with the error.
\<close>

lemma New_error_or_router:
  assumes "New initService newNode i = Returns (rt, e)"
  shows "(rt = None) = (e \<noteq> None)"
  using assms
  by (cases i rule: Kind_of.cases)
     (auto simp: New_def
           split: option.splits Value.splits if_splits prod.splits outcome.splits sum.splits)

text \<open>
  A struct, or a pointer to a struct, without a field named \<^verbatim>\<open>Service\<close>, or with that
  field at another place than the first, is refused with an error.
\<close>

lemma New_no_anchor:
  assumes "i = StructValue t fs \<or> i = Pointer (Some (StructValue t fs))"
      and "FieldByName fs ''Service'' = None"
  shows "New initService newNode i = Returns (None, Some ''can't find restful.Service field'')"
  using assms by (auto simp: New_def)

lemma New_anchor_not_first:
  assumes "i = StructValue t fs \<or> i = Pointer (Some (StructValue t fs))"
      and "FieldByName fs ''Service'' = Some (idx, f)"
      and "idx \<noteq> 0"
  shows "New initService newNode i =
           Returns (None, Some (t @ CHR 0x27 # ''s 1st field must be restful.Service''))"
  using assms by (auto simp: New_def)

lemma New_initService_error:
  assumes "i = StructValue t fs \<or> i = Pointer (Some (StructValue t fs))"
      and "FieldByName fs ''Service'' = Some (0, f)"
      and "initService f = (cfg, Some e)"
  shows "New initService newNode i = Returns (None, Some e)"
  using assms by (cases cfg) (auto simp: New_def)

text \<open>
  Of the anchor \<^verbatim>\<open>New\<close> checks the name and the place: whether field 0 holds a
  \<^verbatim>\<open>Service\<close> plays no part, unless \<^verbatim>\<open>initService\<close> refuses it.
\<close>

lemma New_checks_name_and_place:
  assumes "Name f = ''Service''"
      and "PkgPath f = []"
      and "\<not> IsNode f"
      and "initService f = ((pre, mime, charset), None)"
  shows "New initService newNode (StructValue t [f]) =
           Returns (Some \<lparr>prefix = pre, defaultCharset = charset, defaultMime = mime,
                          instance = \<lparr>reflected = StructValue t [f]\<rparr>, handlers = []\<rparr>,
                    None)"
  using assms by (simp add: New_def)

text \<open>
  The loop returns when every field is exported, and panics at the first field that
  is not, unless a routable field before it has failed.
\<close>

lemma New_loop_returns:
  "\<forall>f\<in>set fs. PkgPath f = [] \<Longrightarrow> \<exists>x. New_loop newNode t pre fs hs = Returns x"
  by (induction fs arbitrary: hs) (auto split: sum.splits)

lemma New_loop_unexported_panics:
  assumes "\<forall>f\<in>set before. PkgPath f = [] \<and> \<not> IsNode f"
      and "PkgPath g \<noteq> []"
  shows "New_loop newNode t pre (before @ g # after) hs = Panics unexportedField"
  using assms by (induction before) auto

lemma New_struct_returns:
  assumes "i = StructValue t fs \<or> i = Pointer (Some (StructValue t fs))"
      and "\<forall>f\<in>set fs. PkgPath f = []"
  shows "\<exists>rt e. New initService newNode i = Returns (rt, e) \<and> (rt = None) = (e \<noteq> None)"
proof -
  have loop: "\<And>pre. \<exists>x. New_loop newNode (StructValue t fs) pre fs [] = Returns x"
    using New_loop_returns [OF assms(2)] by blast
  have "\<exists>rt e. New initService newNode i = Returns (rt, e)"
  proof (cases "FieldByName fs ''Service''")
    case None
    with assms(1) show ?thesis by (auto simp: New_def)
  next
    case (Some a)
    obtain idx f where a: "a = (idx, f)" by (cases a)
    obtain pre mime charset e where cfg: "initService f = ((pre, mime, charset), e)"
      by (metis prod.exhaust)
    obtain x where x: "New_loop newNode (StructValue t fs) pre fs [] = Returns x"
      using loop by blast
    from assms(1) Some a cfg x show ?thesis
      by (cases x; cases e) (auto simp: New_def)
  qed
  then show ?thesis
    using New_error_or_router by blast
qed

text \<open>
  C6. The claim has \<^verbatim>\<open>New\<close> return an error, and no router, for every value without
  a field named \<^verbatim>\<open>Service\<close> and on every configuration error. For structs and
  pointers to structs whose fields are exported that is so (the lemmas above). It is
  not so in two cases, in which \<^verbatim>\<open>New\<close> panics and returns neither an error nor a
  router:

  \<^item> a pointer to a value that is not a struct, \<^verbatim>\<open>new(int)\<close>, has no field named
    \<^verbatim>\<open>Service\<close>; its kind is \<^verbatim>\<open>Ptr\<close>, so the test of line 69 lets it through, and
    \<^verbatim>\<open>FieldByName\<close> on line 76 panics;
  \<^item> in \<open>Broken\<close> the routable field \<^verbatim>\<open>Bad\<close> is misconfigured, but the loop reaches
    the unexported field \<^verbatim>\<open>hits\<close> first and \<^verbatim>\<open>Interface()\<close> on line 94 panics,
    whatever \<^verbatim>\<open>newNode\<close> would report for \<^verbatim>\<open>Bad\<close>.
\<close>

theorem New_panics_instead_of_error:
  "Kind_of (Pointer (Some OtherValue)) = Ptr
   \<and> New initService newNode (Pointer (Some OtherValue))
       = Panics ''reflect: FieldByName of non-struct type''
   \<and> New exampleInitService newNode (Pointer (Some Broken)) = Panics unexportedField"
  by (simp add: New_def Broken_def exampleInitService_def)

section \<open>Handler names\<close>

lemma Get_absent: "key \<notin> fst ` set tag \<Longrightarrow> Get tag key = []"
  by (simp add: Get_def map_of_eq_None_iff [THEN iffD2])

text \<open>
  C9. A routable field whose tag has no \<^verbatim>\<open>func\<close> key gets the handler name
  \<^verbatim>\<open>Handle\<close> followed by the field's name, and the method bound to it is the service
  method of that name.
\<close>

theorem handler_defaults_to_Handle_field_name:
  assumes "''func'' \<notin> fst ` set (Tag f)"
  shows "funcName f = ''Handle'' @ Name f
         \<and> bindHandler methods f = methods (''Handle'' @ Name f)"
  using Get_absent [OF assms] by (simp add: funcName_def bindHandler_def)

text \<open>
  An instance: the field \<^verbatim>\<open>CreateHello\<close> of \<^verbatim>\<open>RestExample\<close> is bound to the method
  \<^verbatim>\<open>HandleCreateHello\<close>.
\<close>

theorem handler_defaults_to_Handle_field_name_witness:
  "funcName CreateHello = ''HandleCreateHello''
   \<and> bindHandler RestExample_methods CreateHello = RestExample_methods ''HandleCreateHello''
   \<and> RestExample_methods ''HandleCreateHello'' = Some 1"
proof -
  have h: "''func'' \<notin> fst ` set (Tag CreateHello)"
    by (simp add: CreateHello_def)
  have n: "Name CreateHello = ''CreateHello''"
    by (simp add: CreateHello_def)
  show ?thesis
    using handler_defaults_to_Handle_field_name [OF h, of RestExample_methods] n
    by (simp add: RestExample_methods_def)
qed

end
